theory Spec2Isabelle
  imports Main
begin

section \<open>Python values, exceptions and the process state\<close>

text \<open>
  The script \<^verbatim>\<open>pipf.py\<close> is one linear module. Its data are the values
  Python hands it: strings, \<^verbatim>\<open>None\<close>, the integer literal \<^verbatim>\<open>1\<close> and
  \<^verbatim>\<open>pathlib.Path\<close> objects. \<^verbatim>\<open>os.getenv\<close> returns a string or
  \<^verbatim>\<open>None\<close>, which is \<open>string option\<close> here, and so does
  \<^verbatim>\<open>args.name\<close>.
\<close>

datatype pyval = PyNone | PyStr string | PyInt int

text \<open>\<^verbatim>\<open>==\<close> between values of different types is \<^verbatim>\<open>False\<close> in Python.\<close>

fun py_eq :: "pyval \<Rightarrow> pyval \<Rightarrow> bool" where
  "py_eq PyNone PyNone = True"
| "py_eq (PyStr a) (PyStr b) = (a = b)"
| "py_eq (PyInt a) (PyInt b) = (a = b)"
| "py_eq _ _ = False"

fun py_val :: "string option \<Rightarrow> pyval" where
  "py_val None = PyNone"
| "py_val (Some s) = PyStr s"

text \<open>Truth value of a string or \<^verbatim>\<open>None\<close>: only a non-empty string is true.\<close>

fun truthy :: "string option \<Rightarrow> bool" where
  "truthy None = False"
| "truthy (Some s) = (s \<noteq> [])"

text \<open>
  \<^verbatim>\<open>SystemExit\<close> carries the argument of \<^verbatim>\<open>exit()\<close> or
  \<^verbatim>\<open>sys.exit()\<close>; the other exceptions are the ones the script raises itself or
  lets through from the library.
\<close>

datatype exn =
    SystemExit "int option"
  | IndexError
  | TypeError
  | NameError
  | EnvironmentError
  | OSError
  | RuntimeError
  | NotImplementedError
  | PexpectError

text \<open>Every call that leaves the process is recorded, in order.\<close>

datatype event =
    Print string
  | Warn string
  | ParseArgs
  | Exists string
  | Glob string string
  | Open string
  | GetTerminalSize
  | Spawn "string option" "string list"
  | Sendline string
  | SignalWinch
  | Interact
  | Close
  | Run "string list" "string option"

type_synonym environ = "string \<rightharpoonup> string"

record state =
  environ :: environ
  trace :: "event list"

record cli_args =
  name :: "string option"
  command :: "string list"

text \<open>
  What the script cannot decide by itself is read from the world it runs in: the result of
  \<^verbatim>\<open>parser.parse_args()\<close> on the command line, the current directory, the file
  system as seen through \<^verbatim>\<open>exists\<close>, \<^verbatim>\<open>expanduser\<close>,
  \<^verbatim>\<open>glob\<close> and \<^verbatim>\<open>open\<close>, whether a library call raises, and the
  \<^verbatim>\<open>exitstatus\<close> attribute of the child after \<^verbatim>\<open>close()\<close>.
\<close>

record world =
  parsed :: "exn + cli_args"
  cwd :: string
  path_exists :: "string \<Rightarrow> bool"
  expanduser :: "string \<Rightarrow> exn + string"
  glob :: "string \<Rightarrow> string \<Rightarrow> exn + string list"
  file_text :: "string \<Rightarrow> exn + string"
  fault :: "event \<Rightarrow> exn option"
  exitstatus :: "int option"

type_synonym 'a io = "state \<Rightarrow> state \<times> (exn + 'a)"

definition ret :: "'a \<Rightarrow> 'a io" where
  "ret x s = (s, Inr x)"

definition raise :: "exn \<Rightarrow> 'a io" where
  "raise e s = (s, Inl e)"

definition bind_io :: "'a io \<Rightarrow> ('a \<Rightarrow> 'b io) \<Rightarrow> 'b io" where
  "bind_io m f s = (case m s of (s', Inl e) \<Rightarrow> (s', Inl e) | (s', Inr x) \<Rightarrow> f x s')"

definition emit :: "event \<Rightarrow> unit io" where
  "emit ev s = (s\<lparr>trace := trace s @ [ev]\<rparr>, Inr ())"

text \<open>A library call: recorded, then it returns or raises as the world says.\<close>

definition call :: "world \<Rightarrow> event \<Rightarrow> unit io" where
  "call w ev s =
     (s\<lparr>trace := trace s @ [ev]\<rparr>, case fault w ev of None \<Rightarrow> Inr () | Some e \<Rightarrow> Inl e)"

definition getenv :: "environ \<Rightarrow> string \<Rightarrow> string option" where
  "getenv env k = env k"

text \<open>\<^verbatim>\<open>exit()\<close> and \<^verbatim>\<open>sys.exit(code)\<close> raise \<^verbatim>\<open>SystemExit(code)\<close>.\<close>

definition sys_exit :: "int option \<Rightarrow> 'a io" where
  "sys_exit code = raise (SystemExit code)"

text \<open>
  The status the process ends with: \<open>0\<close> when the module runs to its end or
  \<^verbatim>\<open>SystemExit\<close> carries \<^verbatim>\<open>None\<close>, the low byte of an integer code, and
  \<open>1\<close> for any other uncaught exception.
\<close>

fun exit_status :: "exn + 'a \<Rightarrow> int" where
  "exit_status (Inr _) = 0"
| "exit_status (Inl (SystemExit None)) = 0"
| "exit_status (Inl (SystemExit (Some n))) = n mod 256"
| "exit_status (Inl _) = 1"

section \<open>The module, top to bottom\<close>

definition msg_in_project :: string where
  "msg_in_project =
     ''You have set the PIPENV_VENV_IN_PROJECT variable, so pipf can'' @ [CHR 0x27] @
     ''t find the environment locations. This is currently not supported''"

definition msg_ambiguous :: string where
  "msg_ambiguous = ''More than one Env of the same name. Not currently supported.''"

definition msg_found_pipfile :: string where
  "msg_found_pipfile =
     ''Not in a venv and no name supplied. Found a Pipfile in current dir, using this environment''"

subsection \<open>\<^verbatim>\<open>temp_environ\<close>\<close>

definition dict_clear :: "environ \<Rightarrow> environ" where
  "dict_clear env = Map.empty"

definition dict_update :: "environ \<Rightarrow> environ \<Rightarrow> environ" where
  "dict_update env d = env ++ d"

text \<open>
  The context manager copies \<^verbatim>\<open>os.environ\<close>, runs the body of the
  \<^verbatim>\<open>with\<close> block and, in its \<^verbatim>\<open>finally\<close>, clears the environment and
  writes the copy back; the body's result or exception passes through.
\<close>

definition temp_environ :: "'a io \<Rightarrow> 'a io" where
  "temp_environ body s =
     (let saved = environ s in
      case body s of
        (s', r) \<Rightarrow> (s'\<lparr>environ := dict_update (dict_clear (environ s')) saved\<rparr>, r))"

subsection \<open>\<^verbatim>\<open>get_env_dir\<close> and \<^verbatim>\<open>get_working_dir\<close>\<close>

text \<open>
  \<^verbatim>\<open>get_env_dir\<close> returns either the raw value of \<^verbatim>\<open>VIRTUAL_ENV\<close>
  (a string or \<^verbatim>\<open>None\<close>) or a \<^verbatim>\<open>Path\<close> taken from the glob.
\<close>

datatype env_path = EnvVarValue "string option" | PathObj string

fun py_str :: "env_path \<Rightarrow> string" where
  "py_str (EnvVarValue None) = ''None''"
| "py_str (EnvVarValue (Some s)) = s"
| "py_str (PathObj p) = p"

definition default_root :: string where
  "default_root = ''~/.local/share/virtualenvs''"

definition environments_root :: "environ \<Rightarrow> string" where
  "environments_root env =
     (case getenv env ''WORKON_HOME'' of
        None \<Rightarrow> default_root
      | Some r \<Rightarrow> if r = [] then default_root else r)"

definition get_env_dir :: "world \<Rightarrow> string option \<Rightarrow> env_path io" where
  "get_env_dir w envname s =
     (case envname of
        None \<Rightarrow> ret (EnvVarValue (getenv (environ s) ''VIRTUAL_ENV'')) s
      | Some n \<Rightarrow>
          if n = [] then ret (EnvVarValue (getenv (environ s) ''VIRTUAL_ENV'')) s
          else
            (case expanduser w (environments_root (environ s)) of
               Inl e \<Rightarrow> raise e s
             | Inr root_path \<Rightarrow>
                 bind_io (emit (Glob root_path (n @ ''*'')))
                   (\<lambda>_. case glob w root_path (n @ ''*'') of
                      Inl e \<Rightarrow> raise e
                    | Inr matches \<Rightarrow>
                        if length matches > 1
                        then bind_io (emit (Print msg_ambiguous)) (\<lambda>_. sys_exit None)
                        else (case matches of
                                [] \<Rightarrow> raise IndexError
                              | p # _ \<Rightarrow> ret (PathObj p))) s))"

text \<open>
  Text mode reads with universal newlines: \<^verbatim>\<open>\r\n\<close> and \<^verbatim>\<open>\r\<close> arrive as
  \<^verbatim>\<open>\n\<close>. \<^verbatim>\<open>readline\<close> returns the text up to and including the first
  newline.
\<close>

fun universal_newlines :: "string \<Rightarrow> string" where
  "universal_newlines [] = []"
| "universal_newlines [c] = [if c = CHR 0x0D then CHR 0x0A else c]"
| "universal_newlines (c # d # cs) =
     (if c = CHR 0x0D \<and> d = CHR 0x0A then CHR 0x0A # universal_newlines cs
      else if c = CHR 0x0D then CHR 0x0A # universal_newlines (d # cs)
      else c # universal_newlines (d # cs))"

fun readline :: "string \<Rightarrow> string" where
  "readline [] = []"
| "readline (c # cs) = (if c = CHR 0x0A then [c] else c # readline cs)"

definition open_file :: "world \<Rightarrow> string \<Rightarrow> string io" where
  "open_file w path s = (s\<lparr>trace := trace s @ [Open path]\<rparr>, file_text w path)"

definition get_working_dir :: "world \<Rightarrow> string option \<Rightarrow> string io" where
  "get_working_dir w envname =
     bind_io (get_env_dir w envname)
       (\<lambda>env_path. case env_path of
          EnvVarValue _ \<Rightarrow> raise TypeError
        | PathObj p \<Rightarrow>
            bind_io (open_file w (p @ ''/.project''))
              (\<lambda>text. ret (readline (universal_newlines text))))"

subsection \<open>\<^verbatim>\<open>is_pipenv_venv_active\<close>\<close>

definition is_pipenv_venv_active :: "environ \<Rightarrow> bool" where
  "is_pipenv_venv_active env = py_eq (py_val (getenv env ''PIPENV_ACTIVE'')) (PyInt 1)"

subsection \<open>Argument handling and the two branches\<close>

definition parse_args :: "world \<Rightarrow> cli_args io" where
  "parse_args w = bind_io (emit ParseArgs) (\<lambda>_ s. (s, parsed w))"

text \<open>Lines 105 to 116: the value of \<^verbatim>\<open>in_correct_dir\<close>, or the error raised.\<close>

definition in_correct_dir :: "world \<Rightarrow> cli_args \<Rightarrow> bool io" where
  "in_correct_dir w a s =
     (if \<not> is_pipenv_venv_active (environ s) \<and> \<not> truthy (name a)
      then bind_io (emit (Exists (cwd w @ ''/Pipfile'')))
             (\<lambda>_. if path_exists w (cwd w @ ''/Pipfile'')
                   then bind_io (emit (Warn msg_found_pipfile)) (\<lambda>_. ret True)
                   else raise EnvironmentError) s
      else ret False s)"

definition setenv :: "string \<Rightarrow> string \<Rightarrow> unit io" where
  "setenv k v s = (s\<lparr>environ := (environ s)(k \<mapsto> v)\<rparr>, Inr ())"

definition popenv :: "string \<Rightarrow> unit io" where
  "popenv k s = (s\<lparr>environ := (environ s)(k := None)\<rparr>, Inr ())"

text \<open>The body of the \<^verbatim>\<open>with temp_environ()\<close> block, lines 130 to 144.\<close>

definition shell_body :: "world \<Rightarrow> cli_args \<Rightarrow> unit io" where
  "shell_body w a =
     bind_io (\<lambda>s. call w (Spawn (getenv (environ s) ''SHELL'') [''-i'']) s)
       (\<lambda>_. bind_io (get_env_dir w (name a))
       (\<lambda>p. bind_io (call w (Sendline (''source '' @ py_str p @ ''/bin/activate'')))
       (\<lambda>_. bind_io (call w SignalWinch)
       (\<lambda>_. bind_io (call w Interact)
       (\<lambda>_. bind_io (call w Close)
       (\<lambda>_. sys_exit (exitstatus w)))))))"

text \<open>Lines 121 to 144: the two mutations, the terminal size, then the scoped block.\<close>

definition shell_branch :: "world \<Rightarrow> cli_args \<Rightarrow> unit io" where
  "shell_branch w a =
     bind_io (setenv ''PIPENV_ACTIVE'' ''1'')
       (\<lambda>_. bind_io (popenv ''PIP_SHIMS_BASE_MODULE'')
       (\<lambda>_. bind_io (emit GetTerminalSize)
       (\<lambda>_. temp_environ (shell_body w a))))"

text \<open>
  Lines 120 to 153. \<^verbatim>\<open>cmd\<close> is bound only in the \<^verbatim>\<open>else\<close> branch, so the
  lines after the \<^verbatim>\<open>if\<close> would raise \<^verbatim>\<open>NameError\<close> if the interactive
  branch ever fell through.
\<close>

definition dispatch :: "world \<Rightarrow> cli_args \<Rightarrow> bool \<Rightarrow> unit io" where
  "dispatch w a icd =
     (case command a of
        [] \<Rightarrow> raise IndexError
      | c # _ \<Rightarrow>
          bind_io
            (if c = ''shell'' \<and> truthy (name a)
             then bind_io (shell_branch w a) (\<lambda>_. ret None)
             else ret (Some (''pipenv'' # command a)))
            (\<lambda>cmd. case cmd of
               None \<Rightarrow> raise NameError
             | Some cmd \<Rightarrow>
                 if \<not> icd
                 then bind_io (get_working_dir w (name a)) (\<lambda>d. call w (Run cmd (Some d)))
                 else call w (Run cmd None)))"

text \<open>The whole module, from the check on line 16 to the last line.\<close>

definition script :: "world \<Rightarrow> unit io" where
  "script w s =
     (if truthy (getenv (environ s) ''PIPENV_VENV_IN_PROJECT'')
      then bind_io (emit (Print msg_in_project)) (\<lambda>_. sys_exit None) s
      else bind_io (parse_args w)
             (\<lambda>a. bind_io (in_correct_dir w a) (\<lambda>icd. dispatch w a icd)) s)"

section \<open>Observations and example runs\<close>

text \<open>
  \<^verbatim>\<open>get_terminal_size()\<close> on line 127 is called in the interactive branch only,
  right after the two assignments to the environment that open it: a run has entered
  that branch exactly when the call is in its trace.
\<close>

definition entered_shell_branch :: "state \<Rightarrow> bool" where
  "entered_shell_branch s = (GetTerminalSize \<in> set (trace s))"

text \<open>
  A small machine: one environment \<^verbatim>\<open>foo-Ab12\<close> under the storage root, whose
  marker file names \<^verbatim>\<open>/home/u/proj\<close>, and the command line
  \<^verbatim>\<open>pipf --name foo install requests\<close> typed in a directory without a Pipfile.
  The other worlds change one thing each.
\<close>

definition demo_world :: world where
  "demo_world =
     \<lparr> parsed = Inr \<lparr>name = Some ''foo'', command = [''install'', ''requests'']\<rparr>,
       cwd = ''/home/u/elsewhere'',
       path_exists = (\<lambda>p. False),
       expanduser = (\<lambda>p. if p = ''~/.local/share/virtualenvs'' then Inr ''/v'' else Inr p),
       glob = (\<lambda>root pat. if root = ''/v'' \<and> pat = ''foo*'' then Inr [''/v/foo-Ab12''] else Inr []),
       file_text = (\<lambda>p. if p = ''/v/foo-Ab12/.project'' then Inr ''/home/u/proj'' else Inl OSError),
       fault = (\<lambda>ev. None),
       exitstatus = Some 3 \<rparr>"

definition shell_world :: world where
  "shell_world = demo_world\<lparr>parsed := Inr \<lparr>name = Some ''foo'', command = [''shell'']\<rparr>\<rparr>"

definition pipfile_world :: world where
  "pipfile_world =
     demo_world\<lparr>parsed := Inr \<lparr>name = None, command = [''shell'']\<rparr>,
                path_exists := (\<lambda>p. p = ''/home/u/elsewhere/Pipfile'')\<rparr>"

definition empty_name_world :: world where
  "empty_name_world = pipfile_world\<lparr>parsed := Inr \<lparr>name = Some [], command = [''shell'']\<rparr>\<rparr>"

definition two_envs_world :: world where
  "two_envs_world =
     demo_world\<lparr>glob := (\<lambda>root pat. if root = ''/v'' \<and> pat = ''foo*''
                                    then Inr [''/v/foo-Ab12'', ''/v/foo-Cd34''] else Inr [])\<rparr>"

definition no_env_world :: world where
  "no_env_world = demo_world\<lparr>glob := (\<lambda>root pat. Inr [])\<rparr>"

definition newline_world :: world where
  "newline_world =
     demo_world\<lparr>file_text := (\<lambda>p. if p = ''/v/foo-Ab12/.project''
                                   then Inr (''/home/u/proj'' @ [CHR 0x0A]) else Inl OSError)\<rparr>"

definition unnamed_world :: world where
  "unnamed_world = demo_world\<lparr>parsed := Inr \<lparr>name = None, command = [''install'']\<rparr>\<rparr>"

definition start :: state where
  "start = \<lparr>environ = Map.empty, trace = []\<rparr>"

definition active_start :: state where
  "active_start =
     \<lparr>environ = [''PIPENV_ACTIVE'' \<mapsto> ''1'', ''VIRTUAL_ENV'' \<mapsto> ''/v/foo-Ab12''], trace = []\<rparr>"

definition shims_start :: state where
  "shims_start = \<lparr>environ = [''PIP_SHIMS_BASE_MODULE'' \<mapsto> ''pipenv.patched.notpip''], trace = []\<rparr>"

definition in_project_start :: state where
  "in_project_start = \<lparr>environ = [''PIPENV_VENV_IN_PROJECT'' \<mapsto> ''1''], trace = []\<rparr>"

definition in_project_empty_start :: state where
  "in_project_empty_start = \<lparr>environ = [''PIPENV_VENV_IN_PROJECT'' \<mapsto> []], trace = []\<rparr>"

section \<open>Basic facts about the model\<close>

lemmas io_defs = ret_def raise_def bind_io_def emit_def call_def sys_exit_def getenv_def
  setenv_def popenv_def open_file_def parse_args_def

lemmas script_defs = script_def dispatch_def shell_branch_def shell_body_def in_correct_dir_def
  get_working_dir_def get_env_dir_def environments_root_def default_root_def temp_environ_def
  dict_update_def dict_clear_def is_pipenv_venv_active_def

lemmas world_defs = demo_world_def shell_world_def pipfile_world_def empty_name_world_def
  two_envs_world_def no_env_world_def newline_world_def unnamed_world_def

lemmas start_defs = start_def active_start_def shims_start_def in_project_start_def
  in_project_empty_start_def

subsection \<open>The scoped environment\<close>

lemma temp_environ_restores: "environ (fst (temp_environ body s)) = environ s"
  by (simp add: temp_environ_def dict_update_def dict_clear_def split: prod.splits)

lemma temp_environ_trace: "trace (fst (temp_environ body s)) = trace (fst (body s))"
  by (simp add: temp_environ_def split: prod.splits)

lemma shell_branch_environ:
  "environ (fst (shell_branch w a s)) =
     ((environ s)(''PIPENV_ACTIVE'' \<mapsto> ''1''))(''PIP_SHIMS_BASE_MODULE'' := None)"
  by (simp add: shell_branch_def bind_io_def setenv_def popenv_def emit_def temp_environ_restores)

lemma environments_root_mutated:
  "environments_root ((env(''PIPENV_ACTIVE'' \<mapsto> ''1''))(''PIP_SHIMS_BASE_MODULE'' := None)) =
   environments_root env"
  by (simp add: environments_root_def getenv_def)

subsection \<open>The locator and the resolver, case by case\<close>

lemma get_env_dir_ambiguous:
  assumes "n \<noteq> []" "expanduser w (environments_root (environ s)) = Inr r"
    "glob w r (n @ ''*'') = Inr ms" "1 < length ms"
  shows "get_env_dir w (Some n) s =
           (s\<lparr>trace := trace s @ [Glob r (n @ ''*''), Print msg_ambiguous]\<rparr>, Inl (SystemExit None))"
  using assms by (simp add: get_env_dir_def io_defs)

lemma get_env_dir_no_match:
  assumes "n \<noteq> []" "expanduser w (environments_root (environ s)) = Inr r"
    "glob w r (n @ ''*'') = Inr []"
  shows "get_env_dir w (Some n) s = (s\<lparr>trace := trace s @ [Glob r (n @ ''*'')]\<rparr>, Inl IndexError)"
  using assms by (simp add: get_env_dir_def io_defs)

lemma get_env_dir_one:
  assumes "n \<noteq> []" "expanduser w (environments_root (environ s)) = Inr r"
    "glob w r (n @ ''*'') = Inr [p]"
  shows "get_env_dir w (Some n) s = (s\<lparr>trace := trace s @ [Glob r (n @ ''*'')]\<rparr>, Inr (PathObj p))"
  using assms by (simp add: get_env_dir_def io_defs)

lemma get_working_dir_one:
  assumes "n \<noteq> []" "expanduser w (environments_root (environ s)) = Inr r"
    "glob w r (n @ ''*'') = Inr [p]" "file_text w (p @ ''/.project'') = Inr content"
  shows "get_working_dir w (Some n) s =
           (s\<lparr>trace := trace s @ [Glob r (n @ ''*''), Open (p @ ''/.project'')]\<rparr>,
            Inr (readline (universal_newlines content)))"
  using assms by (simp add: get_working_dir_def get_env_dir_one io_defs)

lemma universal_newlines_plain: "CHR 0x0D \<notin> set content \<Longrightarrow> universal_newlines content = content"
  by (induction content rule: universal_newlines.induct) auto

lemma readline_plain: "CHR 0x0A \<notin> set content \<Longrightarrow> readline content = content"
  by (induction content) auto

subsection \<open>Traces only grow, and only the interactive branch asks for the terminal size\<close>

lemma bind_extends:
  assumes "\<And>s. \<exists>evs. trace (fst (m s)) = trace s @ evs"
    and "\<And>x s. \<exists>evs. trace (fst (f x s)) = trace s @ evs"
  shows "\<exists>evs. trace (fst (bind_io m f s)) = trace s @ evs"
proof (cases "m s")
  case (Pair s' r)
  from assms(1) [of s] Pair obtain evs where e1: "trace s' = trace s @ evs" by auto
  show ?thesis
  proof (cases r)
    case (Inl e)
    with Pair e1 show ?thesis by (simp add: bind_io_def)
  next
    case (Inr x)
    from assms(2) [of x s'] obtain evs' where "trace (fst (f x s')) = trace s' @ evs'" by auto
    with Pair Inr e1 show ?thesis by (simp add: bind_io_def)
  qed
qed

lemma call_extends: "\<exists>evs. trace (fst (call w ev s)) = trace s @ evs"
  by (simp add: call_def)

lemma get_env_dir_extends: "\<exists>evs. trace (fst (get_env_dir w e s)) = trace s @ evs"
  by (auto simp: get_env_dir_def io_defs split: option.splits sum.splits list.splits)

lemma shell_body_extends: "\<exists>evs. trace (fst (shell_body w a s)) = trace s @ evs"
  unfolding shell_body_def
  by (intro bind_extends call_extends get_env_dir_extends) (simp add: sys_exit_def raise_def)

lemma shell_branch_tsize: "GetTerminalSize \<in> set (trace (fst (shell_branch w a s)))"
proof -
  let ?s1 = "s\<lparr>environ := ((environ s)(''PIPENV_ACTIVE'' \<mapsto> ''1''))(''PIP_SHIMS_BASE_MODULE'' := None),
               trace := trace s @ [GetTerminalSize]\<rparr>"
  have "trace (fst (shell_branch w a s)) = trace (fst (shell_body w a ?s1))"
    by (simp add: shell_branch_def bind_io_def setenv_def popenv_def emit_def temp_environ_trace)
  moreover obtain evs where "trace (fst (shell_body w a ?s1)) = trace ?s1 @ evs"
    using shell_body_extends by blast
  ultimately show ?thesis by simp
qed

lemma get_env_dir_no_tsize:
  "GetTerminalSize \<notin> set (trace s) \<Longrightarrow> GetTerminalSize \<notin> set (trace (fst (get_env_dir w e s)))"
  by (auto simp: get_env_dir_def io_defs split: option.splits sum.splits list.splits)

lemma get_working_dir_no_tsize:
  assumes "GetTerminalSize \<notin> set (trace s)"
  shows "GetTerminalSize \<notin> set (trace (fst (get_working_dir w e s)))"
proof (cases "get_env_dir w e s")
  case (Pair s' r)
  with get_env_dir_no_tsize [OF assms, of w e] have "GetTerminalSize \<notin> set (trace s')" by simp
  with Pair show ?thesis
    by (auto simp: get_working_dir_def io_defs split: sum.splits env_path.splits)
qed

lemma forward_no_tsize:
  assumes "GetTerminalSize \<notin> set (trace s)"
  shows "GetTerminalSize \<notin> set (trace (fst (
           (if \<not> icd then bind_io (get_working_dir w e) (\<lambda>d. call w (Run cmd (Some d)))
            else call w (Run cmd None)) s)))"
proof (cases "get_working_dir w e s")
  case (Pair s' r)
  with get_working_dir_no_tsize [OF assms, of w e] have "GetTerminalSize \<notin> set (trace s')" by simp
  with Pair assms show ?thesis
    by (auto simp: io_defs split: sum.splits)
qed

subsection \<open>The module, stage by stage\<close>

lemma is_active_False: "is_pipenv_venv_active env = False"
  by (cases "getenv env ''PIPENV_ACTIVE''") (simp_all add: is_pipenv_venv_active_def)

lemma script_past_guard:
  assumes "parsed w = Inr a" "\<not> truthy (getenv (environ s) ''PIPENV_VENV_IN_PROJECT'')"
  shows "script w s =
           bind_io (in_correct_dir w a) (\<lambda>icd. dispatch w a icd) (s\<lparr>trace := trace s @ [ParseArgs]\<rparr>)"
  using assms by (simp add: script_def io_defs)

lemma in_correct_dir_named:
  "truthy (name a) \<Longrightarrow> in_correct_dir w a s = (s, Inr False)"
  by (simp add: in_correct_dir_def ret_def)

lemma in_correct_dir_pipfile:
  "\<not> truthy (name a) \<Longrightarrow> path_exists w (cwd w @ ''/Pipfile'') \<Longrightarrow>
   in_correct_dir w a s =
     (s\<lparr>trace := trace s @ [Exists (cwd w @ ''/Pipfile''), Warn msg_found_pipfile]\<rparr>, Inr True)"
  by (simp add: in_correct_dir_def is_active_False io_defs)

lemma in_correct_dir_no_pipfile:
  "\<not> truthy (name a) \<Longrightarrow> \<not> path_exists w (cwd w @ ''/Pipfile'') \<Longrightarrow>
   in_correct_dir w a s =
     (s\<lparr>trace := trace s @ [Exists (cwd w @ ''/Pipfile'')]\<rparr>, Inl EnvironmentError)"
  by (simp add: in_correct_dir_def is_active_False io_defs)

lemma dispatch_shell:
  "command a = ''shell'' # cs \<Longrightarrow> truthy (name a) \<Longrightarrow>
   fst (dispatch w a icd s) = fst (shell_branch w a s)"
  by (cases "shell_branch w a s"; cases "snd (shell_branch w a s)")
     (auto simp: dispatch_def io_defs split: sum.splits)

lemma dispatch_forward:
  "command a = c # cs \<Longrightarrow> \<not> (c = ''shell'' \<and> truthy (name a)) \<Longrightarrow>
   dispatch w a icd s =
     (if \<not> icd then bind_io (get_working_dir w (name a)) (\<lambda>d. call w (Run (''pipenv'' # c # cs) (Some d)))
      else call w (Run (''pipenv'' # c # cs) None)) s"
  by (auto simp: dispatch_def ret_def bind_io_def)

lemma dispatch_shell_iff:
  assumes "command a = c # cs" "GetTerminalSize \<notin> set (trace s)"
  shows "(GetTerminalSize \<in> set (trace (fst (dispatch w a icd s)))) = (c = ''shell'' \<and> truthy (name a))"
proof (cases "c = ''shell'' \<and> truthy (name a)")
  case True
  with assms(1) show ?thesis by (simp add: dispatch_shell shell_branch_tsize)
next
  case False
  from dispatch_forward [OF assms(1) False] forward_no_tsize [OF assms(2)] False
  show ?thesis by simp
qed

lemma script_forward_named:
  assumes "parsed w = Inr a" "command a = c # cs" "truthy (name a)" "c \<noteq> ''shell''"
    "\<not> truthy (getenv (environ s) ''PIPENV_VENV_IN_PROJECT'')"
  shows "script w s =
           bind_io (get_working_dir w (name a)) (\<lambda>d. call w (Run (''pipenv'' # c # cs) (Some d)))
             (s\<lparr>trace := trace s @ [ParseArgs]\<rparr>)"
proof -
  have nf: "\<not> (c = ''shell'' \<and> truthy (name a))" using assms(4) by simp
  show ?thesis
    using assms(3)
    by (simp add: script_past_guard [OF assms(1,5)] bind_io_def [of "in_correct_dir w a"]
        in_correct_dir_named dispatch_forward [OF assms(2) nf])
qed

lemma script_shell_named:
  assumes "parsed w = Inr a" "command a = ''shell'' # cs" "truthy (name a)"
    "\<not> truthy (getenv (environ s) ''PIPENV_VENV_IN_PROJECT'')"
    "shell_body w a
       (s\<lparr>environ := ((environ s)(''PIPENV_ACTIVE'' \<mapsto> ''1''))(''PIP_SHIMS_BASE_MODULE'' := None),
          trace := trace s @ [ParseArgs, GetTerminalSize]\<rparr>) = (s', Inl e)"
  shows "script w s =
           (s'\<lparr>environ := ((environ s)(''PIPENV_ACTIVE'' \<mapsto> ''1''))(''PIP_SHIMS_BASE_MODULE'' := None)\<rparr>,
            Inl e)"
  using assms(2,3,5)
  by (simp add: script_past_guard [OF assms(1,4)] bind_io_def in_correct_dir_named dispatch_def
      shell_branch_def setenv_def popenv_def emit_def temp_environ_def dict_update_def dict_clear_def)

lemma shell_body_run:
  assumes "n \<noteq> []" "name a = Some n" "\<forall>ev. fault w ev = None"
    "expanduser w (environments_root (environ s)) = Inr r" "glob w r (n @ ''*'') = Inr [p]"
  shows "shell_body w a s =
           (s\<lparr>trace := trace s @ [Spawn (getenv (environ s) ''SHELL'') [''-i''], Glob r (n @ ''*''),
                 Sendline (''source '' @ p @ ''/bin/activate''), SignalWinch, Interact, Close]\<rparr>,
            Inl (SystemExit (exitstatus w)))"
proof -
  let ?s1 = "s\<lparr>trace := trace s @ [Spawn (getenv (environ s) ''SHELL'') [''-i'']]\<rparr>"
  have g: "get_env_dir w (Some n) ?s1 = (?s1\<lparr>trace := trace ?s1 @ [Glob r (n @ ''*'')]\<rparr>, Inr (PathObj p))"
    using assms by (intro get_env_dir_one) simp_all
  show ?thesis
    using assms(2,3) g by (simp add: shell_body_def bind_io_def call_def sys_exit_def raise_def)
qed

section \<open>The claims\<close>

subsection \<open>C1: the environment after the interactive branch\<close>

text \<open>
  C1, as stated, fails: the branch assigns \<^verbatim>\<open>PIPENV_ACTIVE\<close> and pops
  \<^verbatim>\<open>PIP_SHIMS_BASE_MODULE\<close> on lines 121 to 124, before
  \<^verbatim>\<open>temp_environ\<close> takes its copy on line 129. Running
  \<^verbatim>\<open>pipf --name foo shell\<close> with only the legacy variable set ends with an
  environment that differs from the one before the branch: the flag is \<open>1\<close> and the
  legacy variable is gone.
\<close>

theorem shell_branch_leaks:
  "environ (fst (script shell_world shims_start)) \<noteq> environ shims_start
   \<and> environ (fst (script shell_world shims_start)) ''PIPENV_ACTIVE'' = Some ''1''
   \<and> environ shims_start ''PIPENV_ACTIVE'' = None
   \<and> environ (fst (script shell_world shims_start)) ''PIP_SHIMS_BASE_MODULE'' = None
   \<and> environ shims_start ''PIP_SHIMS_BASE_MODULE'' = Some ''pipenv.patched.notpip''"
proof -
  have a: "environ (fst (script shell_world shims_start)) ''PIPENV_ACTIVE'' = Some ''1''"
    by (simp add: script_defs io_defs world_defs start_defs)
  have b: "environ (fst (script shell_world shims_start)) ''PIP_SHIMS_BASE_MODULE'' = None"
    by (simp add: script_defs io_defs world_defs start_defs)
  have c: "environ shims_start ''PIPENV_ACTIVE'' = None"
    by (simp add: start_defs)
  have d: "environ shims_start ''PIP_SHIMS_BASE_MODULE'' = Some ''pipenv.patched.notpip''"
    by (simp add: start_defs)
  from a c have "environ (fst (script shell_world shims_start)) \<noteq> environ shims_start"
    by (metis option.distinct(1))
  with a b c d show ?thesis by simp
qed

text \<open>
  C1, amended: whatever the body of a \<^verbatim>\<open>with temp_environ()\<close> block does and
  however it ends, the environment after the block is the one at entry to the block; and
  for every run of the interactive branch, whether the subshell steps succeed or raise,
  the environment after the branch is the environment before it with
  \<^verbatim>\<open>PIPENV_ACTIVE\<close> set to \<open>1\<close> and \<^verbatim>\<open>PIP_SHIMS_BASE_MODULE\<close>
  removed. The two mutations are made before the snapshot and stay.
\<close>

theorem shell_branch_environ_snapshot:
  "environ (fst (temp_environ body s)) = environ s
   \<and> environ (fst (shell_branch w a s')) =
       ((environ s')(''PIPENV_ACTIVE'' \<mapsto> ''1''))(''PIP_SHIMS_BASE_MODULE'' := None)"
  by (simp add: temp_environ_restores shell_branch_environ)

subsection \<open>C2: the first line of the marker file\<close>

text \<open>
  C2: for a marker file holding \<^verbatim>\<open>/home/u/proj\<close> followed by a newline, the
  claim expects \<^verbatim>\<open>get_working_dir\<close> to return the path without the newline.
  \<^verbatim>\<open>readline()\<close> keeps the line terminator and nothing strips it, so the
  function returns the path with the newline at its end, which is not the directory the
  docstring promises and not a directory \<^verbatim>\<open>subprocess.run\<close> can enter.
\<close>

theorem get_working_dir_keeps_newline:
  "file_text newline_world ''/v/foo-Ab12/.project'' = Inr (''/home/u/proj'' @ [CHR 0x0A])
   \<and> snd (get_working_dir newline_world (Some ''foo'') start) = Inr (''/home/u/proj'' @ [CHR 0x0A])
   \<and> snd (get_working_dir newline_world (Some ''foo'') start) \<noteq> Inr ''/home/u/proj''"
  by (simp add: script_defs io_defs world_defs start_defs)

subsection \<open>C3: two or more matches\<close>

text \<open>
  C3, as stated, fails on the exit status: \<^verbatim>\<open>exit()\<close> is called without an
  argument, so \<^verbatim>\<open>SystemExit\<close> carries \<^verbatim>\<open>None\<close> and the process ends
  with status \<open>0\<close>. With two environments matching \<^verbatim>\<open>foo*\<close> the run prints
  the message and exits, and its status is not nonzero.
\<close>

theorem ambiguous_exit_status_zero:
  "glob two_envs_world ''/v'' ''foo*'' = Inr [''/v/foo-Ab12'', ''/v/foo-Cd34'']
   \<and> script two_envs_world start =
       (\<lparr>environ = Map.empty, trace = [ParseArgs, Glob ''/v'' ''foo*'', Print msg_ambiguous]\<rparr>,
        Inl (SystemExit None))
   \<and> \<not> exit_status (snd (script two_envs_world start)) \<noteq> 0"
  by (simp add: script_defs io_defs world_defs start_defs)

text \<open>
  C3, amended: for every storage root in which the glob for the given name followed by
  \<^verbatim>\<open>*\<close> has two or more matches, the locator prints the ambiguity message and
  raises \<^verbatim>\<open>SystemExit\<close> with no code, doing nothing else (no choice among the
  matches is attempted); the exit status is \<open>0\<close>, the default of a bare
  \<^verbatim>\<open>exit()\<close>. A forwarding run that reaches the locator ends the same way.
\<close>

theorem get_env_dir_many_matches:
  assumes "n \<noteq> []" "expanduser w (environments_root (environ s)) = Inr r"
    "glob w r (n @ ''*'') = Inr ms" "1 < length ms"
  shows "get_env_dir w (Some n) s =
           (s\<lparr>trace := trace s @ [Glob r (n @ ''*''), Print msg_ambiguous]\<rparr>, Inl (SystemExit None))
       \<and> exit_status (snd (get_env_dir w (Some n) s)) = 0
       \<and> (parsed w = Inr a \<and> name a = Some n \<and> command a = c # cs \<and> c \<noteq> ''shell'' \<and>
          \<not> truthy (getenv (environ s) ''PIPENV_VENV_IN_PROJECT'')
          \<longrightarrow> script w s =
                (s\<lparr>trace := trace s @ [ParseArgs, Glob r (n @ ''*''), Print msg_ambiguous]\<rparr>,
                 Inl (SystemExit None))
              \<and> exit_status (snd (script w s)) = 0)"
proof (intro conjI impI)
  show loc: "get_env_dir w (Some n) s =
      (s\<lparr>trace := trace s @ [Glob r (n @ ''*''), Print msg_ambiguous]\<rparr>, Inl (SystemExit None))"
    using assms by (rule get_env_dir_ambiguous)
  show "exit_status (snd (get_env_dir w (Some n) s)) = 0"
    by (simp add: loc)
next
  assume h: "parsed w = Inr a \<and> name a = Some n \<and> command a = c # cs \<and> c \<noteq> ''shell'' \<and>
    \<not> truthy (getenv (environ s) ''PIPENV_VENV_IN_PROJECT'')"
  let ?s1 = "s\<lparr>trace := trace s @ [ParseArgs]\<rparr>"
  have t: "truthy (name a)" using h assms(1) by simp
  have g: "get_env_dir w (Some n) ?s1 =
      (?s1\<lparr>trace := trace ?s1 @ [Glob r (n @ ''*''), Print msg_ambiguous]\<rparr>, Inl (SystemExit None))"
    using assms by (intro get_env_dir_ambiguous) simp_all
  have run: "script w s =
      (s\<lparr>trace := trace s @ [ParseArgs, Glob r (n @ ''*''), Print msg_ambiguous]\<rparr>,
       Inl (SystemExit None))"
    using h g t
    by (simp add: script_forward_named [of w a c cs s] get_working_dir_def bind_io_def)
  show "script w s =
      (s\<lparr>trace := trace s @ [ParseArgs, Glob r (n @ ''*''), Print msg_ambiguous]\<rparr>,
       Inl (SystemExit None))"
    by (rule run)
  show "exit_status (snd (script w s)) = 0"
    by (simp add: run)
qed

theorem get_env_dir_many_matches_witness:
  "''foo'' \<noteq> []
   \<and> expanduser two_envs_world (environments_root (environ start)) = Inr ''/v''
   \<and> glob two_envs_world ''/v'' (''foo'' @ ''*'') = Inr [''/v/foo-Ab12'', ''/v/foo-Cd34'']
   \<and> 1 < length [''/v/foo-Ab12'', ''/v/foo-Cd34'']
   \<and> get_env_dir two_envs_world (Some ''foo'') start =
       (start\<lparr>trace := [Glob ''/v'' ''foo*'', Print msg_ambiguous]\<rparr>, Inl (SystemExit None))
   \<and> exit_status (snd (get_env_dir two_envs_world (Some ''foo'') start)) = 0
   \<and> parsed two_envs_world = Inr \<lparr>name = Some ''foo'', command = [''install'', ''requests'']\<rparr>
   \<and> script two_envs_world start =
       (start\<lparr>trace := [ParseArgs, Glob ''/v'' ''foo*'', Print msg_ambiguous]\<rparr>,
        Inl (SystemExit None))
   \<and> exit_status (snd (script two_envs_world start)) = 0"
proof -
  have h1: "''foo'' \<noteq> []" by simp
  have h2: "expanduser two_envs_world (environments_root (environ start)) = Inr ''/v''"
    by (simp add: world_defs start_def environments_root_def default_root_def getenv_def)
  have h3: "glob two_envs_world ''/v'' (''foo'' @ ''*'') = Inr [''/v/foo-Ab12'', ''/v/foo-Cd34'']"
    by (simp add: world_defs)
  have h4: "1 < length [''/v/foo-Ab12'', ''/v/foo-Cd34'']" by simp
  have p: "parsed two_envs_world = Inr \<lparr>name = Some ''foo'', command = [''install'', ''requests'']\<rparr>"
    by (simp add: world_defs)
  have g: "\<not> truthy (getenv (environ start) ''PIPENV_VENV_IN_PROJECT'')"
    by (simp add: start_def getenv_def)
  have t: "trace start = []" by (simp add: start_def)
  from get_env_dir_many_matches [OF h1 h2 h3 h4,
      of "\<lparr>name = Some ''foo'', command = [''install'', ''requests'']\<rparr>" "''install''" "[''requests'']"]
    h2 h3 p g t
  show ?thesis by simp
qed

subsection \<open>C4: no name, active environment\<close>

text \<open>
  C4: with no name and \<^verbatim>\<open>PIPENV_ACTIVE=1\<close> the claim expects the path to come
  from \<^verbatim>\<open>VIRTUAL_ENV\<close> with no Pipfile lookup. The test on line 106 relies on
  \<^verbatim>\<open>is_pipenv_venv_active\<close>, which is never true, so the script looks for a
  Pipfile in the current directory and, finding none, raises
  \<^verbatim>\<open>EnvironmentError\<close>; \<^verbatim>\<open>VIRTUAL_ENV\<close> is not read.
\<close>

theorem active_env_ignored:
  "getenv (environ active_start) ''PIPENV_ACTIVE'' = Some ''1''
   \<and> parsed unnamed_world = Inr \<lparr>name = None, command = [''install'']\<rparr>
   \<and> script unnamed_world active_start =
       (active_start\<lparr>trace := [ParseArgs, Exists ''/home/u/elsewhere/Pipfile'']\<rparr>,
        Inl EnvironmentError)"
  by (simp add: script_defs io_defs world_defs start_defs)

subsection \<open>C5: which branch is taken\<close>

text \<open>
  C5, as stated, fails for an explicit but empty name: \<^verbatim>\<open>pipf --name "" shell\<close>
  supplies \<^verbatim>\<open>--name\<close> and has \<^verbatim>\<open>shell\<close> as first token, yet the test
  on line 120 takes the truth value of the name, and the run forwards
  \<^verbatim>\<open>pipenv shell\<close> instead of entering the interactive branch.
\<close>

theorem empty_name_shell_forwards:
  "parsed empty_name_world = Inr \<lparr>name = Some [], command = [''shell'']\<rparr>
   \<and> \<not> entered_shell_branch (fst (script empty_name_world start))
   \<and> trace (fst (script empty_name_world start)) =
       [ParseArgs, Exists ''/home/u/elsewhere/Pipfile'', Warn msg_found_pipfile,
        Run [''pipenv'', ''shell''] None]"
  by (simp add: script_defs io_defs world_defs start_defs entered_shell_branch_def)

text \<open>
  C5, amended: a run that gets past the start-up check and the argument parser enters the
  interactive branch if and only if the first command token is exactly
  \<^verbatim>\<open>shell\<close> and a non-empty name was supplied; in particular, with command
  \<^verbatim>\<open>["shell"]\<close> and no name the run does not enter it, and the dispatcher goes on
  to the forwarding lines with \<^verbatim>\<open>["pipenv", "shell"]\<close>.
\<close>

theorem shell_branch_iff:
  assumes "parsed w = Inr a" "command a = c # cs"
    "\<not> truthy (getenv (environ s) ''PIPENV_VENV_IN_PROJECT'')" "\<not> entered_shell_branch s"
  shows "entered_shell_branch (fst (script w s)) =
           (c = ''shell'' \<and> name a \<noteq> None \<and> name a \<noteq> Some [])
       \<and> (name a = None \<and> command a = [''shell''] \<longrightarrow>
            \<not> entered_shell_branch (fst (script w s))
          \<and> dispatch w a icd s' =
              (if \<not> icd
               then bind_io (get_working_dir w None) (\<lambda>d. call w (Run [''pipenv'', ''shell''] (Some d)))
               else call w (Run [''pipenv'', ''shell''] None)) s')"
proof -
  let ?s1 = "s\<lparr>trace := trace s @ [ParseArgs]\<rparr>"
  have tr: "truthy (name a) = (name a \<noteq> None \<and> name a \<noteq> Some [])"
    by (cases "name a") simp_all
  have n1: "GetTerminalSize \<notin> set (trace ?s1)"
    using assms(4) by (simp add: entered_shell_branch_def)
  have iff: "entered_shell_branch (fst (script w s)) = (c = ''shell'' \<and> truthy (name a))"
  proof (cases "truthy (name a)")
    case True
    then have "script w s = dispatch w a False ?s1"
      by (simp add: script_past_guard [OF assms(1,3)] bind_io_def in_correct_dir_named)
    with dispatch_shell_iff [OF assms(2) n1, of w False] show ?thesis
      by (simp add: entered_shell_branch_def)
  next
    case False
    show ?thesis
    proof (cases "path_exists w (cwd w @ ''/Pipfile'')")
      case True
      let ?s2 = "?s1\<lparr>trace := trace ?s1 @ [Exists (cwd w @ ''/Pipfile''), Warn msg_found_pipfile]\<rparr>"
      have n2: "GetTerminalSize \<notin> set (trace ?s2)" using n1 by simp
      have "script w s = dispatch w a True ?s2"
        using False True
        by (simp add: script_past_guard [OF assms(1,3)] bind_io_def in_correct_dir_pipfile)
      with dispatch_shell_iff [OF assms(2) n2, of w True] show ?thesis
        by (simp add: entered_shell_branch_def)
    next
      case nopip: False
      have "script w s = (?s1\<lparr>trace := trace ?s1 @ [Exists (cwd w @ ''/Pipfile'')]\<rparr>, Inl EnvironmentError)"
        using False nopip
        by (simp add: script_past_guard [OF assms(1,3)] bind_io_def in_correct_dir_no_pipfile)
      with n1 False show ?thesis
        by (simp add: entered_shell_branch_def)
    qed
  qed
  have part: "dispatch w a icd s' =
      (if \<not> icd
       then bind_io (get_working_dir w None) (\<lambda>d. call w (Run [''pipenv'', ''shell''] (Some d)))
       else call w (Run [''pipenv'', ''shell''] None)) s'"
    if h: "name a = None \<and> command a = [''shell'']"
  proof -
    from h have c: "command a = ''shell'' # []" by simp
    from h have nf: "\<not> (''shell'' = ''shell'' \<and> truthy (name a))" by simp
    from dispatch_forward [OF c nf, of w icd s'] h show ?thesis by simp
  qed
  from iff tr part show ?thesis by auto
qed

theorem shell_branch_iff_witness:
  "parsed shell_world = Inr \<lparr>name = Some ''foo'', command = [''shell'']\<rparr>
   \<and> \<not> truthy (getenv (environ start) ''PIPENV_VENV_IN_PROJECT'')
   \<and> \<not> entered_shell_branch start
   \<and> entered_shell_branch (fst (script shell_world start))
   \<and> parsed pipfile_world = Inr \<lparr>name = None, command = [''shell'']\<rparr>
   \<and> \<not> entered_shell_branch (fst (script pipfile_world start))
   \<and> dispatch pipfile_world \<lparr>name = None, command = [''shell'']\<rparr> True start =
       call pipfile_world (Run [''pipenv'', ''shell''] None) start"
proof -
  have p1: "parsed shell_world = Inr \<lparr>name = Some ''foo'', command = [''shell'']\<rparr>"
    by (simp add: world_defs)
  have p2: "parsed pipfile_world = Inr \<lparr>name = None, command = [''shell'']\<rparr>"
    by (simp add: world_defs)
  have c1: "command \<lparr>name = Some ''foo'', command = [''shell'']\<rparr> = ''shell'' # []" by simp
  have c2: "command \<lparr>name = None, command = [''shell'']\<rparr> = ''shell'' # []" by simp
  have g: "\<not> truthy (getenv (environ start) ''PIPENV_VENV_IN_PROJECT'')"
    by (simp add: start_def getenv_def)
  have e: "\<not> entered_shell_branch start"
    by (simp add: start_def entered_shell_branch_def)
  from shell_branch_iff [OF p1 c1 g e] shell_branch_iff [OF p2 c2 g e, of True start] p1 p2 g e
  show ?thesis by simp
qed

subsection \<open>C6: what the forward branch runs, and where\<close>

text \<open>
  C6: in the forward branch the child is run with \<^verbatim>\<open>pipenv\<close> followed by the
  forwarded tokens in order. With a name, the working directory is what
  \<^verbatim>\<open>get_working_dir\<close> returns for it: the first line of the marker file of the
  one matching environment, and all of the file when it is a single line without a line
  terminator. With no name and a Pipfile in the current directory, no working directory is
  passed and the current one is used, whatever the environment variables say.
\<close>

theorem forward_runs_pipenv:
  assumes "parsed w = Inr a" "command a = c # cs"
    "\<not> truthy (getenv (environ s) ''PIPENV_VENV_IN_PROJECT'')"
  shows "(name a = Some n \<and> n \<noteq> [] \<and> c \<noteq> ''shell'' \<and>
          expanduser w (environments_root (environ s)) = Inr r \<and>
          glob w r (n @ ''*'') = Inr [p] \<and> file_text w (p @ ''/.project'') = Inr content
          \<longrightarrow> trace (fst (script w s)) =
                trace s @ [ParseArgs, Glob r (n @ ''*''), Open (p @ ''/.project''),
                           Run (''pipenv'' # c # cs) (Some (readline (universal_newlines content)))]
              \<and> snd (get_working_dir w (Some n) s) = Inr (readline (universal_newlines content))
              \<and> (CHR 0x0A \<notin> set content \<and> CHR 0x0D \<notin> set content
                 \<longrightarrow> readline (universal_newlines content) = content))
       \<and> (\<not> truthy (name a) \<and> path_exists w (cwd w @ ''/Pipfile'')
          \<longrightarrow> trace (fst (script w s)) =
                trace s @ [ParseArgs, Exists (cwd w @ ''/Pipfile''), Warn msg_found_pipfile,
                           Run (''pipenv'' # c # cs) None])"
proof (intro conjI impI)
  assume h: "name a = Some n \<and> n \<noteq> [] \<and> c \<noteq> ''shell'' \<and>
    expanduser w (environments_root (environ s)) = Inr r \<and>
    glob w r (n @ ''*'') = Inr [p] \<and> file_text w (p @ ''/.project'') = Inr content"
  let ?s1 = "s\<lparr>trace := trace s @ [ParseArgs]\<rparr>"
  have t: "truthy (name a)" using h by simp
  have c: "c \<noteq> ''shell''" using h by simp
  have g: "get_working_dir w (Some n) ?s1 =
      (?s1\<lparr>trace := trace ?s1 @ [Glob r (n @ ''*''), Open (p @ ''/.project'')]\<rparr>,
       Inr (readline (universal_newlines content)))"
    using h by (intro get_working_dir_one) simp_all
  show "trace (fst (script w s)) =
      trace s @ [ParseArgs, Glob r (n @ ''*''), Open (p @ ''/.project''),
                 Run (''pipenv'' # c # cs) (Some (readline (universal_newlines content)))]"
    using h g
    by (simp add: script_forward_named [OF assms(1,2) t c assms(3)] bind_io_def call_def)
  show "snd (get_working_dir w (Some n) s) = Inr (readline (universal_newlines content))"
    using h by (simp add: get_working_dir_one [of n w s r p content])
next
  assume "CHR 0x0A \<notin> set content \<and> CHR 0x0D \<notin> set content"
  then show "readline (universal_newlines content) = content"
    by (simp add: universal_newlines_plain readline_plain)
next
  assume h: "\<not> truthy (name a) \<and> path_exists w (cwd w @ ''/Pipfile'')"
  then have nf: "\<not> (c = ''shell'' \<and> truthy (name a))" by simp
  from h show "trace (fst (script w s)) =
      trace s @ [ParseArgs, Exists (cwd w @ ''/Pipfile''), Warn msg_found_pipfile,
                 Run (''pipenv'' # c # cs) None]"
    by (simp add: script_past_guard [OF assms(1,3)] bind_io_def in_correct_dir_pipfile
        dispatch_forward [OF assms(2) nf] call_def)
qed

theorem forward_runs_pipenv_witness:
  "parsed demo_world = Inr \<lparr>name = Some ''foo'', command = [''install'', ''requests'']\<rparr>
   \<and> \<not> truthy (getenv (environ start) ''PIPENV_VENV_IN_PROJECT'')
   \<and> expanduser demo_world (environments_root (environ start)) = Inr ''/v''
   \<and> glob demo_world ''/v'' (''foo'' @ ''*'') = Inr [''/v/foo-Ab12'']
   \<and> file_text demo_world (''/v/foo-Ab12'' @ ''/.project'') = Inr ''/home/u/proj''
   \<and> trace (fst (script demo_world start)) =
       [ParseArgs, Glob ''/v'' ''foo*'', Open ''/v/foo-Ab12/.project'',
        Run [''pipenv'', ''install'', ''requests''] (Some ''/home/u/proj'')]
   \<and> snd (get_working_dir demo_world (Some ''foo'') start) = Inr ''/home/u/proj''
   \<and> parsed pipfile_world = Inr \<lparr>name = None, command = [''shell'']\<rparr>
   \<and> path_exists pipfile_world (cwd pipfile_world @ ''/Pipfile'')
   \<and> trace (fst (script pipfile_world start)) =
       [ParseArgs, Exists ''/home/u/elsewhere/Pipfile'', Warn msg_found_pipfile,
        Run [''pipenv'', ''shell''] None]"
proof -
  have p1: "parsed demo_world = Inr \<lparr>name = Some ''foo'', command = [''install'', ''requests'']\<rparr>"
    by (simp add: world_defs)
  have c1: "command \<lparr>name = Some ''foo'', command = [''install'', ''requests'']\<rparr> =
      ''install'' # [''requests'']" by simp
  have p2: "parsed pipfile_world = Inr \<lparr>name = None, command = [''shell'']\<rparr>"
    by (simp add: world_defs)
  have c2: "command \<lparr>name = None, command = [''shell'']\<rparr> = ''shell'' # []" by simp
  have g: "\<not> truthy (getenv (environ start) ''PIPENV_VENV_IN_PROJECT'')"
    by (simp add: start_def getenv_def)
  have h2: "expanduser demo_world (environments_root (environ start)) = Inr ''/v''"
    by (simp add: world_defs start_def environments_root_def default_root_def getenv_def)
  have h3: "glob demo_world ''/v'' (''foo'' @ ''*'') = Inr [''/v/foo-Ab12'']"
    by (simp add: world_defs)
  have h4: "file_text demo_world (''/v/foo-Ab12'' @ ''/.project'') = Inr ''/home/u/proj''"
    by (simp add: world_defs)
  have e: "path_exists pipfile_world (cwd pipfile_world @ ''/Pipfile'')"
    by (simp add: world_defs)
  have c: "cwd pipfile_world = ''/home/u/elsewhere''" by (simp add: world_defs)
  have t: "trace start = []" by (simp add: start_def)
  from forward_runs_pipenv [OF p1 c1 g, of "''foo''" "''/v''" "''/v/foo-Ab12''" "''/home/u/proj''"]
    forward_runs_pipenv [OF p2 c2 g] p1 p2 g h2 h3 h4 e c t
  show ?thesis by simp
qed

subsection \<open>C7: no match\<close>

text \<open>
  C7: for every storage root in which the glob for the given name followed by
  \<^verbatim>\<open>*\<close> has no match, the locator raises \<^verbatim>\<open>IndexError\<close> from
  \<^verbatim>\<open>env_path[0]\<close>: it returns no path, prints nothing and does not exit through
  \<^verbatim>\<open>SystemExit\<close>. Nothing catches the error: a forwarding run ends with it,
  with no child run and the status of an uncaught exception.
\<close>

theorem get_env_dir_zero_matches:
  assumes "n \<noteq> []" "expanduser w (environments_root (environ s)) = Inr r"
    "glob w r (n @ ''*'') = Inr []"
  shows "get_env_dir w (Some n) s =
           (s\<lparr>trace := trace s @ [Glob r (n @ ''*'')]\<rparr>, Inl IndexError)
       \<and> (parsed w = Inr a \<and> name a = Some n \<and> command a = c # cs \<and> c \<noteq> ''shell'' \<and>
          \<not> truthy (getenv (environ s) ''PIPENV_VENV_IN_PROJECT'')
          \<longrightarrow> script w s = (s\<lparr>trace := trace s @ [ParseArgs, Glob r (n @ ''*'')]\<rparr>, Inl IndexError)
              \<and> exit_status (snd (script w s)) = 1)"
proof (intro conjI impI)
  show "get_env_dir w (Some n) s = (s\<lparr>trace := trace s @ [Glob r (n @ ''*'')]\<rparr>, Inl IndexError)"
    using assms by (rule get_env_dir_no_match)
next
  assume h: "parsed w = Inr a \<and> name a = Some n \<and> command a = c # cs \<and> c \<noteq> ''shell'' \<and>
    \<not> truthy (getenv (environ s) ''PIPENV_VENV_IN_PROJECT'')"
  let ?s1 = "s\<lparr>trace := trace s @ [ParseArgs]\<rparr>"
  have t: "truthy (name a)" using h assms(1) by simp
  have g: "get_env_dir w (Some n) ?s1 = (?s1\<lparr>trace := trace ?s1 @ [Glob r (n @ ''*'')]\<rparr>, Inl IndexError)"
    using assms by (intro get_env_dir_no_match) simp_all
  have run: "script w s = (s\<lparr>trace := trace s @ [ParseArgs, Glob r (n @ ''*'')]\<rparr>, Inl IndexError)"
    using h g t
    by (simp add: script_forward_named [of w a c cs s] get_working_dir_def bind_io_def)
  show "script w s = (s\<lparr>trace := trace s @ [ParseArgs, Glob r (n @ ''*'')]\<rparr>, Inl IndexError)"
    by (rule run)
  show "exit_status (snd (script w s)) = 1"
    by (simp add: run)
qed

theorem get_env_dir_zero_matches_witness:
  "''foo'' \<noteq> []
   \<and> expanduser no_env_world (environments_root (environ start)) = Inr ''/v''
   \<and> glob no_env_world ''/v'' (''foo'' @ ''*'') = Inr []
   \<and> get_env_dir no_env_world (Some ''foo'') start =
       (start\<lparr>trace := [Glob ''/v'' ''foo*'']\<rparr>, Inl IndexError)
   \<and> parsed no_env_world = Inr \<lparr>name = Some ''foo'', command = [''install'', ''requests'']\<rparr>
   \<and> script no_env_world start =
       (start\<lparr>trace := [ParseArgs, Glob ''/v'' ''foo*'']\<rparr>, Inl IndexError)
   \<and> exit_status (snd (script no_env_world start)) = 1"
proof -
  have h1: "''foo'' \<noteq> []" by simp
  have h2: "expanduser no_env_world (environments_root (environ start)) = Inr ''/v''"
    by (simp add: world_defs start_def environments_root_def default_root_def getenv_def)
  have h3: "glob no_env_world ''/v'' (''foo'' @ ''*'') = Inr []"
    by (simp add: world_defs)
  have p: "parsed no_env_world = Inr \<lparr>name = Some ''foo'', command = [''install'', ''requests'']\<rparr>"
    by (simp add: world_defs)
  have g: "\<not> truthy (getenv (environ start) ''PIPENV_VENV_IN_PROJECT'')"
    by (simp add: start_def getenv_def)
  have t: "trace start = []" by (simp add: start_def)
  from get_env_dir_zero_matches [OF h1 h2 h3,
      of "\<lparr>name = Some ''foo'', command = [''install'', ''requests'']\<rparr>" "''install''" "[''requests'']"]
    h2 h3 p g t
  show ?thesis by simp
qed

subsection \<open>C8: the exit status of the interactive branch\<close>

text \<open>
  C8: when the interactive branch runs through (the name has exactly one match and no
  library call raises), the relay is followed by \<^verbatim>\<open>close()\<close> as the last call,
  and the process ends by \<^verbatim>\<open>SystemExit\<close> carrying the child's
  \<^verbatim>\<open>exitstatus\<close>: when the child has an exit status, that is the status of the
  process.
\<close>

theorem shell_exit_status:
  assumes "parsed w = Inr a" "command a = ''shell'' # cs" "name a = Some n" "n \<noteq> []"
    "\<not> truthy (getenv (environ s) ''PIPENV_VENV_IN_PROJECT'')"
    "\<forall>ev. fault w ev = None"
    "expanduser w (environments_root (environ s)) = Inr r"
    "glob w r (n @ ''*'') = Inr [p]"
  shows "trace (fst (script w s)) =
           trace s @ [ParseArgs, GetTerminalSize, Spawn (getenv (environ s) ''SHELL'') [''-i''],
             Glob r (n @ ''*''), Sendline (''source '' @ p @ ''/bin/activate''),
             SignalWinch, Interact, Close]
       \<and> snd (script w s) = Inl (SystemExit (exitstatus w))
       \<and> (\<forall>k. exitstatus w = Some k \<and> 0 \<le> k \<and> k < 256 \<longrightarrow> exit_status (snd (script w s)) = k)"
proof -
  let ?env = "((environ s)(''PIPENV_ACTIVE'' \<mapsto> ''1''))(''PIP_SHIMS_BASE_MODULE'' := None)"
  let ?s1 = "s\<lparr>environ := ?env, trace := trace s @ [ParseArgs, GetTerminalSize]\<rparr>"
  have body: "shell_body w a ?s1 =
      (?s1\<lparr>trace := trace ?s1 @ [Spawn (getenv (environ ?s1) ''SHELL'') [''-i''], Glob r (n @ ''*''),
                 Sendline (''source '' @ p @ ''/bin/activate''), SignalWinch, Interact, Close]\<rparr>,
       Inl (SystemExit (exitstatus w)))"
    using assms(3,4,6,7,8) by (intro shell_body_run) (simp_all add: environments_root_mutated)
  have t: "truthy (name a)" using assms(3,4) by simp
  have sh: "getenv ?env ''SHELL'' = getenv (environ s) ''SHELL''" by (simp add: getenv_def)
  show ?thesis
    using sh by (simp add: script_shell_named [OF assms(1,2) t assms(5) body])
qed

theorem shell_exit_status_witness:
  "parsed shell_world = Inr \<lparr>name = Some ''foo'', command = [''shell'']\<rparr>
   \<and> \<not> truthy (getenv (environ start) ''PIPENV_VENV_IN_PROJECT'')
   \<and> (\<forall>ev. fault shell_world ev = None)
   \<and> expanduser shell_world (environments_root (environ start)) = Inr ''/v''
   \<and> glob shell_world ''/v'' (''foo'' @ ''*'') = Inr [''/v/foo-Ab12'']
   \<and> exitstatus shell_world = Some 3
   \<and> trace (fst (script shell_world start)) =
       [ParseArgs, GetTerminalSize, Spawn None [''-i''], Glob ''/v'' ''foo*'',
        Sendline ''source /v/foo-Ab12/bin/activate'', SignalWinch, Interact, Close]
   \<and> snd (script shell_world start) = Inl (SystemExit (Some 3))
   \<and> exit_status (snd (script shell_world start)) = 3"
proof -
  have p: "parsed shell_world = Inr \<lparr>name = Some ''foo'', command = [''shell'']\<rparr>"
    by (simp add: world_defs)
  have c: "command \<lparr>name = Some ''foo'', command = [''shell'']\<rparr> = ''shell'' # []" by simp
  have n: "name \<lparr>name = Some ''foo'', command = [''shell'']\<rparr> = Some ''foo''" by simp
  have ne: "''foo'' \<noteq> []" by simp
  have g: "\<not> truthy (getenv (environ start) ''PIPENV_VENV_IN_PROJECT'')"
    by (simp add: start_def getenv_def)
  have f: "\<forall>ev. fault shell_world ev = None" by (simp add: world_defs)
  have h2: "expanduser shell_world (environments_root (environ start)) = Inr ''/v''"
    by (simp add: world_defs start_def environments_root_def default_root_def getenv_def)
  have h3: "glob shell_world ''/v'' (''foo'' @ ''*'') = Inr [''/v/foo-Ab12'']"
    by (simp add: world_defs)
  have x: "exitstatus shell_world = Some 3" by (simp add: world_defs)
  have sh: "getenv (environ start) ''SHELL'' = None" by (simp add: start_def getenv_def)
  have t: "trace start = []" by (simp add: start_def)
  from shell_exit_status [OF p c n ne g f h2 h3] p g f h2 h3 x sh t show ?thesis by simp
qed

subsection \<open>C9: the in-project flag\<close>

text \<open>
  C9, as stated, fails when the variable is set to the empty string: line 16 tests the
  truth value of \<^verbatim>\<open>os.getenv("PIPENV_VENV_IN_PROJECT")\<close>, the empty string is
  false, and the run goes on to parse the arguments, glob, read the marker file and
  forward the command.
\<close>

theorem in_project_empty_continues:
  "getenv (environ in_project_empty_start) ''PIPENV_VENV_IN_PROJECT'' = Some []
   \<and> script demo_world in_project_empty_start =
       (in_project_empty_start\<lparr>trace := [ParseArgs, Glob ''/v'' ''foo*'', Open ''/v/foo-Ab12/.project'',
          Run [''pipenv'', ''install'', ''requests''] (Some ''/home/u/proj'')]\<rparr>, Inr ())"
  by (simp add: script_defs io_defs world_defs start_defs)

text \<open>
  C9, amended: for every invocation in which \<^verbatim>\<open>PIPENV_VENV_IN_PROJECT\<close> is set
  to a non-empty value, the process prints the message and exits at once, whatever the
  arguments and the file system: the message is the only thing the run does, so no
  argument parsing, glob or marker-file read happens.
\<close>

theorem in_project_aborts_first:
  "getenv (environ s) ''PIPENV_VENV_IN_PROJECT'' = Some v \<Longrightarrow> v \<noteq> [] \<Longrightarrow>
   script w s = (s\<lparr>trace := trace s @ [Print msg_in_project]\<rparr>, Inl (SystemExit None))"
  by (simp add: script_def io_defs)

theorem in_project_aborts_first_witness:
  "getenv (environ in_project_start) ''PIPENV_VENV_IN_PROJECT'' = Some ''1'' \<and> ''1'' \<noteq> []
   \<and> script demo_world in_project_start =
       (in_project_start\<lparr>trace := [Print msg_in_project]\<rparr>, Inl (SystemExit None))"
proof -
  have h: "getenv (environ in_project_start) ''PIPENV_VENV_IN_PROJECT'' = Some ''1''"
    by (simp add: in_project_start_def getenv_def)
  have n: "''1'' \<noteq> []" by simp
  have t: "trace in_project_start = []" by (simp add: in_project_start_def)
  from in_project_aborts_first [OF h n, of demo_world] h t show ?thesis by simp
qed

subsection \<open>C10: the active-environment test\<close>

text \<open>
  C10: whatever the process environment holds, also \<^verbatim>\<open>PIPENV_ACTIVE=1\<close>,
  \<^verbatim>\<open>is_pipenv_venv_active\<close> is false: it compares a string or
  \<^verbatim>\<open>None\<close> with the integer \<open>1\<close>, so the detection never reports an active
  environment.
\<close>

theorem is_pipenv_venv_active_never: "is_pipenv_venv_active env = False"
  by (cases "getenv env ''PIPENV_ACTIVE''") (simp_all add: is_pipenv_venv_active_def)

end
